theory Spec2Isabelle
  imports Complex_Main
begin

section \<open>Numbers, errors and configuration\<close>

text \<open>
  The analysis code computes in IEEE double precision. The embedding computes in the
  reals: every float operation stands for the exact operation it approximates, and a
  decimal literal such as \<^verbatim>\<open>1e-10\<close> stands for the decimal fraction it denotes.
  The reals have no nan; the runs in which NumPy yields nan (the mean of an empty array,
  a quotient \<open>0 / 0\<close>) are returned as the value \<open>NotANumber\<close> on the error side of the
  result, although Python raises nothing there. \<open>OutOfFuel\<close> is the outcome of a border
  following that does not close within its step bound.
\<close>

datatype error =
    ZeroDivisionError
  | Cv2Error
  | ModelError
  | AttributeError
  | NotANumber
  | OutOfFuel

text \<open>
  Python's \<^verbatim>\<open>round(x, n)\<close> rounds to \<open>n\<close> decimal places, a tie going to the even
  neighbour.
\<close>

definition round_half_even :: "real \<Rightarrow> int" where
  "round_half_even x =
     (let f = \<lfloor>x\<rfloor>; d = x - of_int f
      in if d < 1 / 2 then f
         else if 1 / 2 < d then f + 1
         else if even f then f else f + 1)"

definition py_round :: "real \<Rightarrow> nat \<Rightarrow> real" where
  "py_round x n = of_int (round_half_even (x * 10 ^ n)) / 10 ^ n"

text \<open>\<open>has_decimals n x\<close>: \<open>x\<close> is a whole multiple of \<open>10\<^sup>-\<^sup>n\<close>.\<close>

definition has_decimals :: "nat \<Rightarrow> real \<Rightarrow> bool" where
  "has_decimals n x \<longleftrightarrow> of_int \<lfloor>x * 10 ^ n\<rfloor> = x * 10 ^ n"

text \<open>The fields of \<^verbatim>\<open>Config\<close> that the analysis reads, with their defaults.\<close>

record config =
  CONFIDENCE_THRESHOLD :: real
  VEGETATION_INDEX_THRESHOLD :: real
  CO2_PER_SQM :: real
  VEGETATION_DENSITY_MULTIPLIER :: real
  MIN_VEGETATION_AREA :: real

definition Config :: config where
  "Config =
     \<lparr> CONFIDENCE_THRESHOLD = 7 / 10,
       VEGETATION_INDEX_THRESHOLD = 3 / 10,
       CO2_PER_SQM = 1 / 2,
       VEGETATION_DENSITY_MULTIPLIER = 12 / 10,
       MIN_VEGETATION_AREA = 1 / 100 \<rparr>"

section \<open>Arrays\<close>

text \<open>
  A two-dimensional NumPy array is a list of rows. \<open>shape2 h w xs\<close> says that \<open>xs\<close> has
  \<open>h\<close> rows of \<open>w\<close> entries each, which every array satisfies for its own shape.
\<close>

definition shape2 :: "nat \<Rightarrow> nat \<Rightarrow> 'a list list \<Rightarrow> bool" where
  "shape2 h w xs \<longleftrightarrow> length xs = h \<and> list_all (\<lambda>row. length row = w) xs"

text \<open>\<^verbatim>\<open>np.mean\<close> of all entries; \<open>None\<close> is the nan of an empty array.\<close>

definition np_mean :: "real list list \<Rightarrow> real option" where
  "np_mean xs =
     (let flat = concat xs
      in if flat = [] then None else Some (sum_list flat / of_nat (length flat)))"

section \<open>Vegetation index\<close>

text \<open>
  An image is a NumPy array of shape \<open>(height, width, 3)\<close> with non-negative integer
  intensities: rows of pixels, a pixel being its red, green and blue value.
\<close>

type_synonym pixel = "nat \<times> nat \<times> nat"
type_synonym image = "pixel list list"

text \<open>Elementwise operations on one array and on two arrays of the same shape.\<close>

definition map2d :: "('a \<Rightarrow> 'b) \<Rightarrow> 'a list list \<Rightarrow> 'b list list" where
  "map2d f xs = map (map f) xs"

definition zip2d :: "('a \<Rightarrow> 'b \<Rightarrow> 'c) \<Rightarrow> 'a list list \<Rightarrow> 'b list list \<Rightarrow> 'c list list" where
  "zip2d f xs ys = map2 (\<lambda>r s. map2 f r s) xs ys"

text \<open>
  \<^verbatim>\<open>calculate_ndvi\<close>: the zero entries of the denominator are replaced by
  \<^verbatim>\<open>1e-10\<close> (\<^verbatim>\<open>np.where\<close>), the others are left as they are.
\<close>

definition calculate_ndvi :: "image \<Rightarrow> error + (real list list \<times> real)" where
  "calculate_ndvi img =
     (let red_band = map2d (\<lambda>(r, g, b). real r) img;
          green_band = map2d (\<lambda>(r, g, b). real g) img;
          numerator = zip2d (-) green_band red_band;
          denominator = zip2d (+) green_band red_band;
          denominator = map2d (\<lambda>d. if d = 0 then 1 / 10 ^ 10 else d) denominator;
          ndvi = zip2d (/) numerator denominator;
          ndvi = map2d (\<lambda>v. (v + 1) / 2) ndvi
      in case np_mean ndvi of
           None \<Rightarrow> Inl NotANumber
         | Some avg_ndvi \<Rightarrow> Inr (ndvi, avg_ndvi))"

text \<open>
  The value that \<open>calculate_ndvi\<close> computes at one pixel, written without arrays;
  lemma \<open>calculate_ndvi_eq\<close> below proves that the array code computes it everywhere.
\<close>

definition ndvi_pixel :: "pixel \<Rightarrow> real" where
  "ndvi_pixel p =
     (case p of (r, g, b) \<Rightarrow>
        ((real g - real r) / (if real g + real r = 0 then 1 / 10 ^ 10 else real g + real r) + 1) / 2)"

section \<open>Estimation\<close>

record vegetation_stats =
  vegetation_coverage :: real
  vegetation_density :: real
  vegetation_pixels :: nat
  total_pixels :: nat
  num_vegetation_areas :: nat

record co2_estimation =
  co2_sequestered_kg :: real
  co2_sequestered_tons :: real
  vegetated_area_sqm :: real
  effective_area_sqm :: real
  vegetation_coverage_percent :: real
  vegetation_density_score :: real

definition estimate_co2_sequestration ::
    "config \<Rightarrow> vegetation_stats \<Rightarrow> real \<Rightarrow> co2_estimation" where
  "estimate_co2_sequestration cfg stats image_area_sqm =
     (let coverage = vegetation_coverage stats;
          density = vegetation_density stats;
          vegetated_area = image_area_sqm * coverage;
          effective_area = vegetated_area * density * VEGETATION_DENSITY_MULTIPLIER cfg;
          co2_sequestered = effective_area * CO2_PER_SQM cfg;
          co2_tons = co2_sequestered / 1000
      in \<lparr> co2_sequestered_kg = py_round co2_sequestered 2,
           co2_sequestered_tons = py_round co2_tons 4,
           vegetated_area_sqm = py_round vegetated_area 2,
           effective_area_sqm = py_round effective_area 2,
           vegetation_coverage_percent = py_round (coverage * 100) 2,
           vegetation_density_score = py_round density 3 \<rparr>)"

record biomass_estimation =
  biomass_per_sqm_kg :: real
  total_biomass_kg :: real
  total_biomass_tons :: real
  ndvi_coefficient :: real
  estimation_confidence :: string

text \<open>
  The coefficients \<open>a\<close> and \<open>b\<close> are local constants of the method. The exponent \<open>2.0\<close>
  is integral, so \<^verbatim>\<open>avg_ndvi ** b\<close> is the square for every sign of the base.
\<close>

definition estimate_biomass :: "real list list \<Rightarrow> real \<Rightarrow> error + biomass_estimation" where
  "estimate_biomass ndvi image_area =
     (case np_mean ndvi of
        None \<Rightarrow> Inl NotANumber
      | Some avg_ndvi \<Rightarrow>
          (let a = 5 / 2;
               b = (2::nat);
               biomass_per_sqm = a * avg_ndvi ^ b;
               total_biomass = biomass_per_sqm * image_area;
               total_tons = total_biomass / 1000
           in Inr \<lparr> biomass_per_sqm_kg = py_round biomass_per_sqm 2,
                    total_biomass_kg = py_round total_biomass 2,
                    total_biomass_tons = py_round total_tons 4,
                    ndvi_coefficient = py_round avg_ndvi 3,
                    estimation_confidence = ''medium'' \<rparr>))"

section \<open>Ground area\<close>

text \<open>
  \<^verbatim>\<open>calculate_image_area\<close> checks none of its arguments. Python's true division raises
  \<^verbatim>\<open>ZeroDivisionError\<close> for a zero divisor; the handler logs and raises it again.
\<close>

definition calculate_image_area :: "real \<Rightarrow> real \<Rightarrow> real \<Rightarrow> int \<Rightarrow> int \<Rightarrow> error + real" where
  "calculate_image_area altitude focal_length sensor_width image_width image_height =
     (if focal_length * of_int image_width = 0 then Inl ZeroDivisionError
      else
        (let gsd = (sensor_width * altitude) / (focal_length * of_int image_width);
             ground_width = gsd * of_int image_width;
             ground_height = gsd * of_int image_height;
             area_sqm = ground_width * ground_height
         in Inr area_sqm))"

section \<open>OpenCV routines\<close>

text \<open>
  The segmentation calls four routines of OpenCV, modelled here from their documented
  behaviour on the single-channel 8-bit masks the program passes. A mask is a list of
  rows of values in \<open>0..255\<close>.
\<close>

type_synonym mask = "nat list list"

definition height :: "'a list list \<Rightarrow> nat" where
  "height xs = length xs"

definition width :: "'a list list \<Rightarrow> nat" where
  "width xs = (case xs of [] \<Rightarrow> 0 | row # _ \<Rightarrow> length row)"

text \<open>
  \<^verbatim>\<open>cv2.morphologyEx\<close> with a square kernel of ones of side \<open>k\<close>, anchored at its
  centre, one iteration, default border: dilation takes the maximum and erosion the minimum
  over the part of the \<open>k \<times> k\<close> window that lies inside the image. Closing is dilation
  then erosion, opening is erosion then dilation.
\<close>

definition neighbourhood :: "nat \<Rightarrow> 'a list list \<Rightarrow> nat \<Rightarrow> nat \<Rightarrow> 'a list" where
  "neighbourhood k m i j =
     (let a = k div 2
      in concat (map (\<lambda>row. drop (j - a) (take (j + (k - a)) row))
                     (drop (i - a) (take (i + (k - a)) m))))"

definition dilate :: "nat \<Rightarrow> mask \<Rightarrow> mask" where
  "dilate k m =
     map (\<lambda>i. map (\<lambda>j. fold max (neighbourhood k m i j) 0) [0..<width m]) [0..<height m]"

definition erode :: "nat \<Rightarrow> mask \<Rightarrow> mask" where
  "erode k m =
     map (\<lambda>i. map (\<lambda>j. fold min (neighbourhood k m i j) 255) [0..<width m]) [0..<height m]"

datatype morph_op = MORPH_CLOSE | MORPH_OPEN

fun morphologyEx :: "mask \<Rightarrow> morph_op \<Rightarrow> nat \<Rightarrow> mask" where
  "morphologyEx src MORPH_CLOSE k = erode k (dilate k src)"
| "morphologyEx src MORPH_OPEN k = dilate k (erode k src)"

text \<open>
  \<^verbatim>\<open>cv2.findContours\<close> with \<^verbatim>\<open>RETR_EXTERNAL\<close> and \<^verbatim>\<open>CHAIN_APPROX_SIMPLE\<close>:
  border following on the binarised image, read as 0 outside. Directions are numbered
  0 to 7 from east, turning towards north (\<open>y\<close> grows downwards). A followed pixel is
  relabelled 2, or \<open>-126\<close> when its eastern neighbour was examined and found 0; a point
  is emitted where the direction changes.
\<close>

type_synonym point = "int \<times> int"
type_synonym contour = "point list"

definition pix :: "int list list \<Rightarrow> point \<Rightarrow> int" where
  "pix g p =
     (case p of (x, y) \<Rightarrow>
        if 0 \<le> x \<and> 0 \<le> y \<and> nat y < length g \<and> nat x < length (g ! nat y)
        then g ! nat y ! nat x else 0)"

definition set_pix :: "int list list \<Rightarrow> point \<Rightarrow> int \<Rightarrow> int list list" where
  "set_pix g p v = (case p of (x, y) \<Rightarrow> g[nat y := (g ! nat y)[nat x := v]])"

definition code_deltas :: "point list" where
  "code_deltas = [(1, 0), (1, -1), (0, -1), (-1, -1), (-1, 0), (-1, 1), (0, 1), (1, 1)]"

definition step_to :: "point \<Rightarrow> nat \<Rightarrow> point" where
  "step_to p s = (case (p, code_deltas ! (s mod 8)) of ((x, y), (dx, dy)) \<Rightarrow> (x + dx, y + dy))"

record tracer =
  tr_img :: "int list list"
  tr_pos :: point
  tr_dir :: nat
  tr_prev_dir :: nat
  tr_pts :: contour

definition border_step :: "tracer \<Rightarrow> tracer" where
  "border_step tr =
     (let g = tr_img tr; i3 = tr_pos tr; s_end = tr_dir tr;
          k = (case find (\<lambda>k. pix g (step_to i3 k) \<noteq> 0) [s_end + 1..<16] of
                 Some k \<Rightarrow> k | None \<Rightarrow> 15);
          s = k mod 8;
          i4 = step_to i3 s;
          g = (if s \<noteq> 0 \<and> s - 1 < s_end then set_pix g i3 (- 126)
               else if pix g i3 = 1 then set_pix g i3 2 else g);
          pts = (if s \<noteq> tr_prev_dir tr then tr_pts tr @ [i3] else tr_pts tr)
      in \<lparr> tr_img = g, tr_pos = i4, tr_dir = s, tr_prev_dir = s, tr_pts = pts \<rparr>)"

fun follow_border :: "nat \<Rightarrow> point \<Rightarrow> point \<Rightarrow> tracer \<Rightarrow> (int list list \<times> contour) option" where
  "follow_border 0 i0 i1 tr = None"
| "follow_border (Suc fuel) i0 i1 tr =
     (let tr' = border_step tr
      in if tr_pos tr' = i0 \<and> tr_pos tr = i1 then Some (tr_img tr', tr_pts tr')
         else follow_border fuel i0 i1 (tr'\<lparr>tr_dir := (tr_dir tr' + 4) mod 8\<rparr>))"

definition fetch_contour :: "nat \<Rightarrow> int list list \<Rightarrow> point \<Rightarrow> (int list list \<times> contour) option" where
  "fetch_contour fuel g i0 =
     (case find (\<lambda>s. pix g (step_to i0 s) \<noteq> 0) [3, 2, 1, 0, 7, 6, 5] of
        None \<Rightarrow> Some (set_pix g i0 (- 126), [i0])
      | Some s \<Rightarrow>
          follow_border fuel i0 (step_to i0 s)
            \<lparr> tr_img = g, tr_pos = i0, tr_dir = s, tr_prev_dir = (s + 4) mod 8, tr_pts = [] \<rparr>)"

text \<open>
  The raster scan: an outer border starts at an unlabelled pixel whose western neighbour
  is 0, unless the last labelled pixel passed on the row carries a positive label (the
  scan is then inside a region already followed). The order of the contours found is not
  observable in \<open>detect_vegetation\<close>.
\<close>

record scanner =
  sc_img :: "int list list"
  sc_prev :: int
  sc_lnbd :: int
  sc_contours :: "contour list"

definition labelled :: "int \<Rightarrow> bool" where
  "labelled v \<longleftrightarrow> v \<noteq> 0 \<and> v \<noteq> 1"

definition scan_pixel :: "nat \<Rightarrow> int \<Rightarrow> scanner \<Rightarrow> int \<Rightarrow> scanner option" where
  "scan_pixel fuel y sc x =
     (let g = sc_img sc; prev = sc_prev sc; p = pix g (x, y)
      in if p = prev then Some sc
         else if prev = 0 \<and> p = 1 then
           (if pix g (sc_lnbd sc, y) > 0 then Some (sc\<lparr>sc_prev := p\<rparr>)
            else (case fetch_contour fuel g (x, y) of
                    None \<Rightarrow> None
                  | Some (g', c) \<Rightarrow>
                      Some \<lparr> sc_img = g', sc_prev = pix g' (x, y), sc_lnbd = x,
                             sc_contours = sc_contours sc @ [c] \<rparr>))
         else if p \<noteq> 0 \<or> prev < 1 then
           Some (sc\<lparr>sc_prev := p, sc_lnbd := (if labelled p then x else sc_lnbd sc)\<rparr>)
         else
           Some (sc\<lparr>sc_prev := p, sc_lnbd := (if labelled prev then x - 1 else sc_lnbd sc)\<rparr>))"

fun scan_row :: "nat \<Rightarrow> int \<Rightarrow> int list \<Rightarrow> scanner \<Rightarrow> scanner option" where
  "scan_row fuel y [] sc = Some sc"
| "scan_row fuel y (x # xs) sc =
     (case scan_pixel fuel y sc x of None \<Rightarrow> None | Some sc' \<Rightarrow> scan_row fuel y xs sc')"

fun scan_rows :: "nat \<Rightarrow> nat \<Rightarrow> int list \<Rightarrow> scanner \<Rightarrow> scanner option" where
  "scan_rows fuel w [] sc = Some sc"
| "scan_rows fuel w (y # ys) sc =
     (case scan_row fuel y (map int [0..<w]) (sc\<lparr>sc_prev := 0, sc_lnbd := - 1\<rparr>) of
        None \<Rightarrow> None
      | Some sc' \<Rightarrow> scan_rows fuel w ys sc')"

definition findContours :: "mask \<Rightarrow> contour list option" where
  "findContours m =
     (let g = map2d (\<lambda>v. if v \<noteq> 0 then 1 else (0::int)) m;
          fuel = 8 * height m * width m + 8
      in map_option sc_contours
           (scan_rows fuel (width m) (map int [0..<height m])
              \<lparr> sc_img = g, sc_prev = 0, sc_lnbd = - 1, sc_contours = [] \<rparr>))"

text \<open>
  \<^verbatim>\<open>cv2.contourArea\<close>: half the absolute value of the cross products summed over the
  closed polygon.
\<close>

definition edges :: "contour \<Rightarrow> (point \<times> point) list" where
  "edges c = (if c = [] then [] else zip (last c # butlast c) c)"

definition contourArea :: "contour \<Rightarrow> real" where
  "contourArea c =
     \<bar>of_int (sum_list (map (\<lambda>((px, py), (qx, qy)). px * qy - py * qx) (edges c)))\<bar> / 2"

text \<open>
  \<^verbatim>\<open>cv2.fillPoly\<close>: with no polygon the image is returned as it is; otherwise a pixel
  takes the colour when it lies on an edge or an odd number of edges of all polygons
  together is crossed by the ray to its east. This is exact for polygons with horizontal,
  vertical and diagonal edges, the only ones that \<^verbatim>\<open>CHAIN_APPROX_SIMPLE\<close> produces.
\<close>

definition on_segment :: "point \<Rightarrow> point \<times> point \<Rightarrow> bool" where
  "on_segment p e =
     (case (p, e) of ((x, y), ((ax, ay), (bx, by))) \<Rightarrow>
        (bx - ax) * (y - ay) = (by - ay) * (x - ax)
        \<and> min ax bx \<le> x \<and> x \<le> max ax bx \<and> min ay by \<le> y \<and> y \<le> max ay by)"

definition crosses :: "point \<Rightarrow> point \<times> point \<Rightarrow> bool" where
  "crosses p e =
     (case (p, e) of ((x, y), ((ax, ay), (bx, by))) \<Rightarrow>
        ((y < ay) \<noteq> (y < by))
        \<and> (if ay < by then (x - ax) * (by - ay) < (y - ay) * (bx - ax)
            else (y - ay) * (bx - ax) < (x - ax) * (by - ay)))"

definition covered :: "contour list \<Rightarrow> point \<Rightarrow> bool" where
  "covered polys p =
     (let es = concat (map edges polys)
      in list_ex (on_segment p) es \<or> odd (length (filter (crosses p) es)))"

definition fillPoly :: "mask \<Rightarrow> contour list \<Rightarrow> nat \<Rightarrow> mask" where
  "fillPoly img pts color =
     (if pts = [] then img
      else map (\<lambda>(y, row). map (\<lambda>(x, v). if covered pts (int x, int y) then color else v)
                               (zip [0..<length row] row))
               (zip [0..<length img] img))"

definition zeros_like :: "mask \<Rightarrow> mask" where
  "zeros_like m = map2d (\<lambda>_. 0) m"

definition zeros :: "nat \<Rightarrow> nat \<Rightarrow> 'a::zero list list" where
  "zeros h w = replicate h (replicate w 0)"

section \<open>Classical segmentation\<close>

text \<open>
  \<^verbatim>\<open>detect_vegetation\<close>. \<open>clean_mask\<close> is the thresholded mask after closing and
  opening. \<^verbatim>\<open>morphologyEx\<close> refuses an empty array; the quotient of the coverage is nan
  or infinite for an image without pixels.
\<close>

definition clean_mask :: "config \<Rightarrow> real list list \<Rightarrow> mask" where
  "clean_mask cfg ndvi =
     (let vegetation_mask =
            map2d (\<lambda>v. if VEGETATION_INDEX_THRESHOLD cfg < v then 1 else 0) ndvi;
          kernel = 5;
          vegetation_mask = morphologyEx vegetation_mask MORPH_CLOSE kernel
      in morphologyEx vegetation_mask MORPH_OPEN kernel)"

definition detect_vegetation ::
    "config \<Rightarrow> image \<Rightarrow> real list list \<Rightarrow> error + (mask \<times> vegetation_stats)" where
  "detect_vegetation cfg img ndvi =
     (if concat ndvi = [] then Inl Cv2Error
      else
        (let vegetation_mask = clean_mask cfg ndvi
         in case findContours vegetation_mask of
              None \<Rightarrow> Inl OutOfFuel
            | Some contours \<Rightarrow>
                (let min_area = real (height img * width img) * MIN_VEGETATION_AREA cfg;
                     valid_contours = filter (\<lambda>cnt. min_area < contourArea cnt) contours;
                     final_mask = fillPoly (zeros_like vegetation_mask) valid_contours 255;
                     total = height img * width img;
                     pixels = length (filter (\<lambda>v. 0 < v) (concat final_mask));
                     vegetation_ndvi =
                       map fst (filter (\<lambda>(v, m). 0 < m) (zip (concat ndvi) (concat final_mask)))
                 in if total = 0 then Inl NotANumber
                    else
                      Inr (final_mask,
                           \<lparr> vegetation_coverage = real pixels / real total,
                             vegetation_density =
                               (if 0 < length vegetation_ndvi
                                then sum_list vegetation_ndvi / real (length vegetation_ndvi)
                                else 0),
                             vegetation_pixels = pixels,
                             total_pixels = total,
                             num_vegetation_areas = length valid_contours \<rparr>))))"

text \<open>
  A scene of 12 by 12 pixels for the examples: a square of 6 by 6 vegetated pixels (index
  \<open>0.9\<close>) three pixels away from every border, on a ground of index \<open>0.1\<close>; its index
  map, its mask with the square at value \<open>c\<close>, and a configuration whose minimum area
  fraction is a quarter of the image, which is exactly the 36 pixels of the square.
\<close>

definition scene :: image where
  "scene = map (\<lambda>i. map (\<lambda>j. if 3 \<le> i \<and> i \<le> 8 \<and> 3 \<le> j \<and> j \<le> 8
                               then (10, 90, 0) else (90, 10, 0)) [0..<12]) [0..<12]"

definition scene_ndvi :: "real list list" where
  "scene_ndvi = map (\<lambda>i. map (\<lambda>j. if 3 \<le> i \<and> i \<le> 8 \<and> 3 \<le> j \<and> j \<le> 8
                               then 9 / 10 else 1 / 10) [0..<12]) [0..<12]"

definition scene_mask :: "nat \<Rightarrow> mask" where
  "scene_mask c = map (\<lambda>i. map (\<lambda>j. if 3 \<le> i \<and> i \<le> 8 \<and> 3 \<le> j \<and> j \<le> 8
                               then c else 0) [0..<12]) [0..<12]"


section \<open>Classifier pipeline\<close>

text \<open>
  What the program asks of TensorFlow and of the file system is a parameter: whether the
  model file exists, what \<^verbatim>\<open>tf.keras.models.load_model\<close> and the construction of the
  default network yield (\<open>None\<close> is an exception raised by the call). A loaded
  network is the function from an image to the probability it predicts for it, the
  resizing and normalising of \<^verbatim>\<open>preprocess_image\<close> included.
\<close>

type_synonym keras_model = "image \<Rightarrow> real"

record tf_runtime =
  path_exists :: bool
  load_result :: "keras_model option"
  default_result :: "keras_model option"

record vegetation_detection_model =
  model :: "keras_model option"
  is_loaded :: bool

text \<open>
  \<^verbatim>\<open>load_model\<close>: a missing file is answered with the default model and \<open>True\<close>; an
  exception inside the \<^verbatim>\<open>try\<close> (a failing load, or a failing default model for a missing
  file) runs the handler, which builds the default model and returns \<open>False\<close>, its own
  exception propagating.
\<close>

definition create_default_model ::
    "tf_runtime \<Rightarrow> vegetation_detection_model \<Rightarrow> error + vegetation_detection_model" where
  "create_default_model rt self =
     (case default_result rt of
        None \<Rightarrow> Inl ModelError
      | Some m \<Rightarrow> Inr (self\<lparr>model := Some m, is_loaded := True\<rparr>))"

definition load_model ::
    "tf_runtime \<Rightarrow> vegetation_detection_model \<Rightarrow> error + (bool \<times> vegetation_detection_model)" where
  "load_model rt self =
     (let handler = (case create_default_model rt self of
                       Inl e \<Rightarrow> Inl e
                     | Inr self' \<Rightarrow> Inr (False, self'))
      in if \<not> path_exists rt then
           (case create_default_model rt self of
              Inl e \<Rightarrow> handler
            | Inr self' \<Rightarrow> Inr (True, self'))
         else
           (case load_result rt of
              None \<Rightarrow> handler
            | Some m \<Rightarrow> Inr (True, self\<lparr>model := Some m, is_loaded := True\<rparr>)))"

definition predict_vegetation ::
    "tf_runtime \<Rightarrow> vegetation_detection_model \<Rightarrow> image
       \<Rightarrow> error + ((real \<times> real list list) \<times> vegetation_detection_model)" where
  "predict_vegetation rt self img =
     (case (if \<not> is_loaded self then map_sum id snd (load_model rt self) else Inr self) of
        Inl e \<Rightarrow> Inl e
      | Inr self' \<Rightarrow>
          (case model self' of
             None \<Rightarrow> Inl AttributeError
           | Some m \<Rightarrow>
               (let vegetation_probability = m img;
                    confidence_map = map2d (\<lambda>_. vegetation_probability) img
                in Inr ((vegetation_probability, confidence_map), self'))))"

record segmentation_stats =
  seg_vegetation_probability :: real
  seg_vegetation_coverage :: real
  seg_vegetation_pixels :: nat
  seg_total_pixels :: nat
  seg_confidence_threshold :: real

definition segment_vegetation ::
    "tf_runtime \<Rightarrow> config \<Rightarrow> vegetation_detection_model \<Rightarrow> image
       \<Rightarrow> error + ((mask \<times> segmentation_stats) \<times> vegetation_detection_model)" where
  "segment_vegetation rt cfg self img =
     (case predict_vegetation rt self img of
        Inl e \<Rightarrow> Inl e
      | Inr ((vegetation_prob, confidence_map), self') \<Rightarrow>
          (let threshold = CONFIDENCE_THRESHOLD cfg;
               segmentation_mask = map2d (\<lambda>v. if threshold < v then 1 else 0) confidence_map
           in if concat segmentation_mask = [] then Inl Cv2Error
              else
                (let kernel = 5;
                     segmentation_mask = morphologyEx segmentation_mask MORPH_CLOSE kernel;
                     segmentation_mask = morphologyEx segmentation_mask MORPH_OPEN kernel;
                     total = height img * width img;
                     pixels = length (filter (\<lambda>v. 0 < v) (concat segmentation_mask))
                 in Inr ((segmentation_mask,
                          \<lparr> seg_vegetation_probability = py_round vegetation_prob 3,
                            seg_vegetation_coverage = real pixels / real total,
                            seg_vegetation_pixels = pixels,
                            seg_total_pixels = total,
                            seg_confidence_threshold = threshold \<rparr>), self'))))"

record health_analysis =
  health_score :: real
  health_category :: string
  ai_vegetation_probability :: real
  average_ndvi :: real
  confidence_level :: string

definition analyze_vegetation_health ::
    "tf_runtime \<Rightarrow> vegetation_detection_model \<Rightarrow> image \<Rightarrow> real list list
       \<Rightarrow> error + (health_analysis \<times> vegetation_detection_model)" where
  "analyze_vegetation_health rt self img ndvi =
     (case predict_vegetation rt self img of
        Inl e \<Rightarrow> Inl e
      | Inr ((vegetation_prob, confidence_map), self') \<Rightarrow>
          (case np_mean ndvi of
             None \<Rightarrow> Inl NotANumber
           | Some avg_ndvi \<Rightarrow>
               (let score = (vegetation_prob + avg_ndvi) / 2;
                    category = (if 7 / 10 < score then ''Excellent''
                                else if 5 / 10 < score then ''Good''
                                else if 3 / 10 < score then ''Fair''
                                else ''Poor'')
                in Inr (\<lparr> health_score = py_round score 3,
                          health_category = category,
                          ai_vegetation_probability = py_round vegetation_prob 3,
                          average_ndvi = py_round avg_ndvi 3,
                          confidence_level =
                            (if 8 / 10 < vegetation_prob then ''high'' else ''medium'') \<rparr>,
                        self'))))"

text \<open>
  The enhanced index adds \<^verbatim>\<open>1e-8\<close> to both denominators and hands the remapped mean
  of the two ratios to \<^verbatim>\<open>tf.image.gaussian_filter2d\<close>. The module \<^verbatim>\<open>tf.image\<close> of
  TensorFlow has no function of that name (TensorFlow Addons has one): looking the
  attribute up raises \<^verbatim>\<open>AttributeError\<close>, which the handler logs and raises again.
\<close>

definition gaussian_filter2d :: "real list list \<Rightarrow> error + real list list" where
  "gaussian_filter2d enhanced_ndvi = Inl AttributeError"

definition enhance_ndvi_calculation :: "image \<Rightarrow> error + real list list" where
  "enhance_ndvi_calculation img =
     (let red_band = map2d (\<lambda>(r, g, b). real r) img;
          green_band = map2d (\<lambda>(r, g, b). real g) img;
          blue_band = map2d (\<lambda>(r, g, b). real b) img;
          ndvi_1 = zip2d (/) (zip2d (-) green_band red_band)
                     (map2d (\<lambda>d. d + 1 / 10 ^ 8) (zip2d (+) green_band red_band));
          ndvi_2 = zip2d (/) (zip2d (-) green_band blue_band)
                     (map2d (\<lambda>d. d + 1 / 10 ^ 8) (zip2d (+) green_band blue_band));
          enhanced_ndvi = map2d (\<lambda>v. v / 2) (zip2d (+) ndvi_1 ndvi_2);
          enhanced_ndvi = map2d (\<lambda>v. (v + 1) / 2) enhanced_ndvi
      in gaussian_filter2d enhanced_ndvi)"

record vegetation_types =
  dense_forest :: real
  sparse_vegetation :: real
  grassland :: real
  water :: real

definition detect_vegetation_types :: "image \<Rightarrow> error + vegetation_types" where
  "detect_vegetation_types img =
     (case (np_mean (map2d (\<lambda>(r, g, b). real r) img),
            np_mean (map2d (\<lambda>(r, g, b). real g) img),
            np_mean (map2d (\<lambda>(r, g, b). real b) img)) of
        (Some red_mean, Some green_mean, Some blue_mean) \<Rightarrow>
          (let green_red_ratio = green_mean / (red_mean + 1 / 10 ^ 8);
               green_blue_ratio = green_mean / (blue_mean + 1 / 10 ^ 8);
               types = \<lparr> dense_forest = 0, sparse_vegetation = 0, grassland = 0, water = 0 \<rparr>
           in Inr (if 12 / 10 < green_red_ratio \<and> 11 / 10 < green_blue_ratio
                   then types\<lparr>dense_forest := 8 / 10, sparse_vegetation := 2 / 10\<rparr>
                   else if 1 < green_red_ratio
                   then types\<lparr>sparse_vegetation := 6 / 10, grassland := 4 / 10\<rparr>
                   else if red_mean < blue_mean \<and> green_mean < blue_mean
                   then types\<lparr>water := 9 / 10\<rparr>
                   else types\<lparr>grassland := 7 / 10, sparse_vegetation := 3 / 10\<rparr>))
      | _ \<Rightarrow> Inl NotANumber)"

definition np_std :: "real list list \<Rightarrow> real option" where
  "np_std xs =
     (case np_mean xs of
        None \<Rightarrow> None
      | Some m \<Rightarrow> map_option sqrt (np_mean (map2d (\<lambda>v. (v - m) ^ 2) xs)))"

record ai_results =
  enhanced_average_ndvi :: real
  enhanced_ndvi_std :: real
  ai_segmentation :: segmentation_stats
  vegetation_health :: health_analysis
  vegetation_types :: vegetation_types
  biomass_estimation :: biomass_estimation
  processing_method :: string

text \<open>
  \<^verbatim>\<open>process_with_ai\<close>; the last argument is the \<^verbatim>\<open>image_area\<close> entry of the metadata,
  1000 when absent. The value \<open>load_model\<close> returns is not looked at.
\<close>

definition process_with_ai ::
    "tf_runtime \<Rightarrow> config \<Rightarrow> vegetation_detection_model \<Rightarrow> image \<Rightarrow> real option
       \<Rightarrow> error + (ai_results \<times> vegetation_detection_model)" where
  "process_with_ai rt cfg self img metadata_image_area =
     (case load_model rt self of
        Inl e \<Rightarrow> Inl e
      | Inr (loaded, self1) \<Rightarrow>
          (case enhance_ndvi_calculation img of
             Inl e \<Rightarrow> Inl e
           | Inr enhanced_ndvi \<Rightarrow>
             case segment_vegetation rt cfg self1 img of
                Inl e \<Rightarrow> Inl e
              | Inr ((segmentation_mask, segmentation_stats), self2) \<Rightarrow>
                  (case analyze_vegetation_health rt self2 img enhanced_ndvi of
                     Inl e \<Rightarrow> Inl e
                   | Inr (health, self3) \<Rightarrow>
                       (case detect_vegetation_types img of
                          Inl e \<Rightarrow> Inl e
                        | Inr types \<Rightarrow>
                            (let image_area = (case metadata_image_area of
                                                 None \<Rightarrow> 1000 | Some a \<Rightarrow> a)
                             in case estimate_biomass enhanced_ndvi image_area of
                                  Inl e \<Rightarrow> Inl e
                                | Inr biomass \<Rightarrow>
                                    (case (np_mean enhanced_ndvi, np_std enhanced_ndvi) of
                                       (Some avg, Some std) \<Rightarrow>
                                         Inr (\<lparr> enhanced_average_ndvi = py_round avg 3,
                                                enhanced_ndvi_std = py_round std 3,
                                                ai_segmentation = segmentation_stats,
                                                vegetation_health = health,
                                                vegetation_types = types,
                                                biomass_estimation = biomass,
                                                processing_method = ''ai_enhanced'' \<rparr>,
                                              self3)
                                     | _ \<Rightarrow> Inl NotANumber))))))"

text \<open>
  Two runtimes for the examples, in both of which the model file exists and fails to
  load: in \<open>broken_file\<close> the default network can be built (and predicts \<open>0.5\<close>), in
  \<open>no_default_model\<close> it cannot. \<open>fresh\<close> is the detector as constructed, \<open>substitute\<close>
  the detector holding the default network.
\<close>

definition broken_file :: tf_runtime where
  "broken_file =
     \<lparr> path_exists = True, load_result = None, default_result = Some (\<lambda>img. 1 / 2) \<rparr>"

definition no_default_model :: tf_runtime where
  "no_default_model =
     \<lparr> path_exists = True, load_result = None, default_result = None \<rparr>"

definition fresh :: vegetation_detection_model where
  "fresh = \<lparr> model = None, is_loaded = False \<rparr>"

definition substitute :: vegetation_detection_model where
  "substitute = \<lparr> model = Some (\<lambda>img. 1 / 2), is_loaded = True \<rparr>"

section \<open>Properties\<close>

subsection \<open>Rounding\<close>

lemma round_half_even_bounds:
  "\<bar>of_int (round_half_even x) - x\<bar> \<le> 1 / 2"
  unfolding round_half_even_def Let_def by (auto simp: abs_if) linarith+

lemma round_half_even_mono:
  assumes "x \<le> y"
  shows "round_half_even x \<le> round_half_even y"
proof (cases "\<lfloor>x\<rfloor> = \<lfloor>y\<rfloor>")
  case True
  with assms show ?thesis
    unfolding round_half_even_def Let_def by auto
next
  case False
  with assms have "\<lfloor>x\<rfloor> + 1 \<le> \<lfloor>y\<rfloor>"
    using floor_mono [OF assms] by linarith
  moreover have "round_half_even x \<le> \<lfloor>x\<rfloor> + 1"
    unfolding round_half_even_def Let_def by auto
  moreover have "\<lfloor>y\<rfloor> \<le> round_half_even y"
    unfolding round_half_even_def Let_def by auto
  ultimately show ?thesis by linarith
qed

lemma py_round_mono: "x \<le> y \<Longrightarrow> py_round x n \<le> py_round y n"
  unfolding py_round_def
  by (intro divide_right_mono) (simp_all add: round_half_even_mono mult_right_mono)

lemma py_round_error: "\<bar>py_round x n - x\<bar> \<le> 1 / (2 * 10 ^ n)"
proof -
  have "\<bar>py_round x n - x\<bar> = \<bar>of_int (round_half_even (x * 10 ^ n)) - x * 10 ^ n\<bar> / 10 ^ n"
    unfolding py_round_def by (simp add: field_simps abs_if)
  also have "\<dots> \<le> (1 / 2) / 10 ^ n"
    by (intro divide_right_mono round_half_even_bounds) simp
  finally show ?thesis by simp
qed

lemma has_decimals_py_round: "has_decimals n (py_round x n)"
  unfolding has_decimals_def py_round_def by simp

subsection \<open>Arrays and the vegetation index\<close>

lemma map2_same: "map2 f (map g xs) (map h xs) = map (\<lambda>x. f (g x) (h x)) xs"
  by (induction xs) simp_all

lemma zip2d_map2d: "zip2d f (map2d g xs) (map2d h xs) = map2d (\<lambda>x. f (g x) (h x)) xs"
  unfolding zip2d_def map2d_def by (simp add: map2_same)

lemma map2d_map2d: "map2d f (map2d g xs) = map2d (f \<circ> g) xs"
  unfolding map2d_def by simp

lemma ndvi_array:
  "(let red_band = map2d (\<lambda>(r, g, b). real r) img;
          green_band = map2d (\<lambda>(r, g, b). real g) img;
          numerator = zip2d (-) green_band red_band;
          denominator = zip2d (+) green_band red_band;
          denominator = map2d (\<lambda>d. if d = 0 then 1 / 10 ^ 10 else d) denominator;
          ndvi = zip2d (/) numerator denominator
      in map2d (\<lambda>v. (v + 1) / 2) ndvi) = map2d ndvi_pixel img"
proof -
  have "map2d (\<lambda>v. (v + 1) / 2)
          (zip2d (/) (zip2d (-) (map2d (\<lambda>(r, g, b). real g) img) (map2d (\<lambda>(r, g, b). real r) img))
             (map2d (\<lambda>d. if d = 0 then 1 / 10 ^ 10 else d)
                (zip2d (+) (map2d (\<lambda>(r, g, b). real g) img) (map2d (\<lambda>(r, g, b). real r) img))))
        = map2d ndvi_pixel img"
    unfolding zip2d_map2d map2d_map2d
    by (simp add: map2d_def ndvi_pixel_def comp_def split_def)
  then show ?thesis by (simp add: Let_def)
qed

lemma calculate_ndvi_eq:
  "calculate_ndvi img =
     (case np_mean (map2d ndvi_pixel img) of
        None \<Rightarrow> Inl NotANumber
      | Some avg_ndvi \<Rightarrow> Inr (map2d ndvi_pixel img, avg_ndvi))"
  using ndvi_array [of img] unfolding calculate_ndvi_def Let_def by (simp split: option.split)

lemma ndvi_pixel_range: "0 \<le> ndvi_pixel p \<and> ndvi_pixel p \<le> 1"
proof -
  obtain r g b where p: "p = (r, g, b)" by (cases p)
  show ?thesis
  proof (cases "real g + real r = 0")
    case True
    then have "g = 0" "r = 0" by simp_all
    then show ?thesis by (simp add: p ndvi_pixel_def)
  next
    case False
    then have pos: "0 < real g + real r" by linarith
    have "ndvi_pixel p = real g / (real g + real r)"
      using False pos by (simp add: p ndvi_pixel_def field_simps)
    moreover have "0 \<le> real g / (real g + real r)" using pos by simp
    moreover have "real g / (real g + real r) \<le> 1" using pos by (simp add: field_simps)
    ultimately show ?thesis by simp
  qed
qed

lemma ndvi_pixel_equal_bands: "ndvi_pixel (r, r, b) = 1 / 2"
  by (simp add: ndvi_pixel_def)

lemma np_mean_nonempty:
  assumes "shape2 h w xs" "0 < h" "0 < w"
  shows "\<exists>m. np_mean xs = Some m"
proof -
  from assms obtain row rest where xs: "xs = row # rest" 
    by (cases xs) (auto simp: shape2_def)
  with assms have "length row = w" by (simp add: shape2_def)
  with assms have "row \<noteq> []" by auto
  then have "concat xs \<noteq> []" by (simp add: xs)
  then show ?thesis by (simp add: np_mean_def Let_def)
qed

lemma shape2_map2d: "shape2 h w (map2d f xs) = shape2 h w xs"
  by (simp add: shape2_def map2d_def list_all_iff)

lemma sum_list_replicate_real: "sum_list (replicate n (c::real)) = of_nat n * c"
  by (induction n) (simp_all add: algebra_simps)

lemma concat_replicate_replicate:
  "concat (replicate h (replicate w c)) = replicate (h * w) c"
  by (induction h) (simp_all add: replicate_add)

lemma np_mean_replicate:
  assumes "0 < h" "0 < w"
  shows "np_mean (replicate h (replicate w c)) = Some c"
  using assms by (simp add: np_mean_def concat_replicate_replicate sum_list_replicate_real)

lemma map_const_replicate: "(\<forall>x \<in> set xs. f x = c) \<Longrightarrow> map f xs = replicate (length xs) c"
  by (induction xs) simp_all

lemma map2d_const:
  assumes "shape2 h w xs" "\<forall>row \<in> set xs. \<forall>x \<in> set row. f x = c"
  shows "map2d f xs = replicate h (replicate w c)"
proof -
  have "\<forall>row \<in> set xs. map f row = replicate w c"
    using assms by (auto simp: shape2_def list_all_iff map_const_replicate)
  then have "map (map f) xs = replicate (length xs) (replicate w c)"
    by (rule map_const_replicate)
  with assms show ?thesis by (simp add: map2d_def shape2_def)
qed

lemma co2_kg_eq:
  "co2_sequestered_kg (estimate_co2_sequestration cfg stats area) =
     py_round (area * vegetation_coverage stats * vegetation_density stats
               * VEGETATION_DENSITY_MULTIPLIER cfg * CO2_PER_SQM cfg) 2"
  by (simp add: estimate_co2_sequestration_def Let_def)

lemma co2_tons_eq:
  "co2_sequestered_tons (estimate_co2_sequestration cfg stats area) =
     py_round (area * vegetation_coverage stats * vegetation_density stats
               * VEGETATION_DENSITY_MULTIPLIER cfg * CO2_PER_SQM cfg / 1000) 4"
  by (simp add: estimate_co2_sequestration_def Let_def)

lemma co2_raw_mono:
  fixes area m k c1 c2 d1 d2 :: real
  assumes "0 \<le> area" "0 < m" "0 < k" "0 \<le> c1" "c1 \<le> c2" "0 \<le> d1" "d1 \<le> d2"
  shows "area * c1 * d1 * m * k \<le> area * c2 * d2 * m * k"
proof -
  have "area * c1 \<le> area * c2" using assms by (simp add: mult_left_mono)
  moreover have "0 \<le> area * c2" using assms by simp
  moreover have "0 \<le> area * c1" using assms by simp
  ultimately have "area * c1 * d1 \<le> area * c2 * d2"
    using assms by (intro mult_mono) simp_all
  then have "area * c1 * d1 * m \<le> area * c2 * d2 * m"
    using assms by (simp add: mult_right_mono)
  then show ?thesis using assms by (simp add: mult_right_mono)
qed


subsection \<open>Segmentation of an empty mask\<close>

lemma height_zeros: "height (zeros h w) = h"
  by (simp add: height_def zeros_def)

lemma width_zeros: "0 < h \<Longrightarrow> width (zeros h w) = w"
  by (cases h) (simp_all add: width_def zeros_def)

lemma height_width_shape2:
  assumes "shape2 h w xs" "0 < h"
  shows "height xs = h" and "width xs = w"
  using assms by (cases xs; simp add: shape2_def height_def width_def)+

lemma neighbourhood_zeros:
  "neighbourhood 5 (zeros h w) i j =
     replicate ((min (i + 3) h - (i - 2)) * (min (j + 3) w - (j - 2))) 0"
  by (simp add: neighbourhood_def zeros_def concat_replicate_replicate min.commute)

lemma fold_max_replicate_zero: "fold max (replicate n 0) (0::nat) = 0"
  by (induction n) simp_all

lemma fold_min_replicate_zero: "0 < n \<Longrightarrow> fold min (replicate n 0) (v::nat) = 0"
proof (induction n arbitrary: v)
  case 0
  then show ?case by simp
next
  case (Suc n)
  show ?case
  proof (cases n)
    case 0
    then show ?thesis by simp
  next
    case (Suc m)
    with Suc.IH [of "min 0 v"] show ?thesis by simp
  qed
qed

lemma map_upt_const: "(\<forall>i < n. f i = c) \<Longrightarrow> map f [0..<n] = replicate n c"
  using map_const_replicate [of "[0..<n]" f c] by simp

lemma dilate_zeros:
  assumes "0 < h"
  shows "dilate 5 (zeros h w) = zeros h w"
proof -
  have cell: "fold max (neighbourhood 5 (zeros h w) i j) 0 = (0::nat)" for i j
    by (simp only: neighbourhood_zeros fold_max_replicate_zero)
  have "dilate 5 (zeros h w) = map (\<lambda>i. map (\<lambda>j. 0) [0..<w]) [0..<h]"
    by (simp only: dilate_def height_zeros width_zeros [OF assms] cell)
  also have "\<dots> = zeros h w"
    by (simp add: map_replicate_const zeros_def)
  finally show ?thesis .
qed

lemma erode_zeros:
  assumes "0 < h"
  shows "erode 5 (zeros h w) = zeros h w"
proof -
  have cell: "fold min (neighbourhood 5 (zeros h w) i j) 255 = (0::nat)" if "i < h" "j < w" for i j
  proof -
    from that have "0 < (min (i + 3) h - (i - 2)) * (min (j + 3) w - (j - 2))"
      by (auto simp: min_def)
    then show ?thesis
      by (simp only: neighbourhood_zeros fold_min_replicate_zero)
  qed
  have row: "map (\<lambda>j. fold min (neighbourhood 5 (zeros h w) i j) 255) [0..<w]
             = (replicate w 0 :: nat list)" if "i < h" for i
    using cell [OF that] by (intro map_upt_const) simp
  have "erode 5 (zeros h w) =
          map (\<lambda>i. map (\<lambda>j. fold min (neighbourhood 5 (zeros h w) i j) 255) [0..<w]) [0..<h]"
    by (simp only: erode_def height_zeros width_zeros [OF assms])
  also have "\<dots> = replicate h (replicate w 0)"
    using row by (intro map_upt_const) simp
  finally show ?thesis by (simp add: zeros_def)
qed

lemma clean_mask_below_threshold:
  assumes "shape2 h w ndvi" "0 < h"
    and "\<forall>row \<in> set ndvi. \<forall>v \<in> set row. v \<le> VEGETATION_INDEX_THRESHOLD cfg"
  shows "clean_mask cfg ndvi = zeros h w"
proof -
  have "\<forall>row \<in> set ndvi. \<forall>v \<in> set row.
          (if VEGETATION_INDEX_THRESHOLD cfg < v then 1 else 0) = (0::nat)"
    using assms(3) by (simp add: not_less)
  then have "map2d (\<lambda>v. if VEGETATION_INDEX_THRESHOLD cfg < v then 1 else 0) ndvi
             = (zeros h w :: nat list list)"
    unfolding zeros_def using assms(1) by (intro map2d_const) simp_all
  then show ?thesis
    using assms(2) by (simp add: clean_mask_def Let_def dilate_zeros erode_zeros)
qed

lemma pix_zeros: "pix (zeros h w) p = 0"
  by (cases p) (auto simp: pix_def zeros_def)

lemma scan_pixel_zeros:
  "sc_img sc = zeros h w \<Longrightarrow> sc_prev sc = 0 \<Longrightarrow> scan_pixel fuel y sc x = Some sc"
  by (simp add: scan_pixel_def Let_def pix_zeros)

lemma scan_row_zeros:
  "sc_img sc = zeros h w \<Longrightarrow> sc_prev sc = 0 \<Longrightarrow> scan_row fuel y xs sc = Some sc"
  by (induction xs) (simp_all add: scan_pixel_zeros)

lemma scan_rows_zeros:
  "sc_img sc = zeros h w \<Longrightarrow>
     \<exists>sc'. scan_rows fuel n ys sc = Some sc' \<and> sc_img sc' = zeros h w
           \<and> sc_contours sc' = sc_contours sc"
proof (induction ys arbitrary: sc)
  case Nil
  then show ?case by simp
next
  case (Cons y ys)
  let ?sc = "sc\<lparr>sc_prev := 0, sc_lnbd := - 1\<rparr>"
  have "scan_row fuel y (map int [0..<n]) ?sc = Some ?sc"
    using Cons.prems by (intro scan_row_zeros) simp_all
  moreover from Cons.IH [of ?sc] Cons.prems
  obtain sc' where "scan_rows fuel n ys ?sc = Some sc'" "sc_img sc' = zeros h w"
    "sc_contours sc' = sc_contours sc" by auto
  ultimately show ?case by simp
qed

lemma findContours_zeros: "findContours (zeros h w) = Some []"
proof -
  have g: "map2d (\<lambda>v. if v \<noteq> 0 then 1 else (0::int)) (zeros h w :: nat list list) = zeros h w"
    by (simp add: map2d_def zeros_def)
  from scan_rows_zeros [of "\<lparr> sc_img = zeros h w, sc_prev = 0, sc_lnbd = - 1, sc_contours = [] \<rparr>" h w]
  show ?thesis
    unfolding findContours_def Let_def g by fastforce
qed

lemma zeros_like_zeros: "zeros_like (zeros h w) = zeros h w"
  by (simp add: zeros_like_def zeros_def map2d_def)

lemma concat_zeros: "concat (zeros h w) = replicate (h * w) 0"
  by (simp add: zeros_def concat_replicate_replicate)

lemma filter_zip_zero:
  "filter (\<lambda>(v, m). 0 < m) (zip xs (replicate n (0::nat))) = []"
  by (auto simp: filter_empty_conv dest: set_zip_rightD)


subsection \<open>The example scene\<close>

lemma scene_clean:
  "clean_mask Config scene_ndvi = scene_mask 1"
  by code_simp







lemma scene_ndvi_eq: "map2d ndvi_pixel scene = scene_ndvi"
  by (simp add: scene_def scene_ndvi_def map2d_def ndvi_pixel_def comp_def if_distrib cong: if_cong)









subsection \<open>The classifier pipeline\<close>

lemma load_model_missing_file:
  assumes "\<not> path_exists rt" "default_result rt = Some m"
  shows "load_model rt self = Inr (True, self\<lparr>model := Some m, is_loaded := True\<rparr>)"
  using assms by (simp add: load_model_def create_default_model_def Let_def)

lemma load_model_failed_load:
  assumes "path_exists rt" "load_result rt = None" "default_result rt = Some m"
  shows "load_model rt self = Inr (False, self\<lparr>model := Some m, is_loaded := True\<rparr>)"
  using assms by (simp add: load_model_def create_default_model_def Let_def)

lemma load_model_no_default:
  assumes "path_exists rt \<longrightarrow> load_result rt = None" "default_result rt = None"
  shows "load_model rt self = Inl ModelError"
  using assms by (auto simp: load_model_def create_default_model_def Let_def)

lemma process_with_ai_load_error:
  "load_model rt self = Inl e \<Longrightarrow> process_with_ai rt cfg self img area = Inl e"
  by (simp only: process_with_ai_def sum.case)

text \<open>
  Once the model is in place the run stops at the smoothing of the enhanced index: no
  call of \<open>process_with_ai\<close> returns a result.
\<close>

lemma process_with_ai_raises:
  "process_with_ai rt cfg self img area =
     (case load_model rt self of Inl e \<Rightarrow> Inl e | Inr loaded \<Rightarrow> Inl AttributeError)"
proof (cases "load_model rt self")
  case (Inl e)
  then show ?thesis by (simp add: process_with_ai_load_error)
next
  case (Inr ls)
  obtain b s1 where ls: "ls = (b, s1)" by (cases ls)
  have e: "enhance_ndvi_calculation img = Inl AttributeError"
    by (simp add: enhance_ndvi_calculation_def gaussian_filter2d_def Let_def)
  show ?thesis
    apply (simp only: process_with_ai_def Inr ls)
    apply (simp only: sum.case prod.case e)
    done
qed

subsection \<open>The claims\<close>

text \<open>
  C1. For every image with at least one row and one column, \<open>calculate_ndvi\<close> returns
  an index map of the same height and width as the image, and every value of the map
  lies in the closed interval from 0 to 1.
\<close>

theorem calculate_ndvi_shape_range:
  assumes "shape2 h w img" "0 < h" "0 < w"
  shows "\<exists>ndvi avg. calculate_ndvi img = Inr (ndvi, avg) \<and> shape2 h w ndvi
           \<and> (\<forall>row \<in> set ndvi. \<forall>v \<in> set row. 0 \<le> v \<and> v \<le> 1)"
proof -
  have sh: "shape2 h w (map2d ndvi_pixel img)"
    using assms by (simp add: shape2_map2d)
  from np_mean_nonempty [OF sh assms(2,3)] obtain m
    where m: "np_mean (map2d ndvi_pixel img) = Some m" ..
  have "calculate_ndvi img = Inr (map2d ndvi_pixel img, m)"
    by (simp add: calculate_ndvi_eq m)
  moreover have "\<forall>row \<in> set (map2d ndvi_pixel img). \<forall>v \<in> set row. 0 \<le> v \<and> v \<le> 1"
    using ndvi_pixel_range by (auto simp: map2d_def)
  ultimately show ?thesis using sh by blast
qed

text \<open>Witness for C1: a one-by-two image.\<close>

theorem calculate_ndvi_shape_range_witness:
  "shape2 1 2 [[(10::nat, 30::nat, 0::nat), (0, 0, 0)]]
   \<and> (\<exists>ndvi avg. calculate_ndvi [[(10, 30, 0), (0, 0, 0)]] = Inr (ndvi, avg) \<and> shape2 1 2 ndvi
           \<and> (\<forall>row \<in> set ndvi. \<forall>v \<in> set row. 0 \<le> v \<and> v \<le> 1))"
proof -
  have s: "shape2 1 2 [[(10::nat, 30::nat, 0::nat), (0, 0, 0)]]" by (simp add: shape2_def)
  from calculate_ndvi_shape_range [OF s] s show ?thesis by simp
qed

text \<open>
  C2, as the code has it. The index at a pixel is \<open>((green - red) / d + 1) / 2\<close>, where
  \<open>d\<close> is \<open>green + red\<close> when that sum is not zero and \<open>1e-10\<close> when it is zero: nothing
  is added to a non-zero denominator.
\<close>

theorem calculate_ndvi_pixel_formula:
  assumes "calculate_ndvi img = Inr (ndvi, avg)"
    and "i < length img" "j < length (img ! i)" "img ! i ! j = (r, g, b)"
  shows "ndvi ! i ! j =
           ((real g - real r) / (if real g + real r = 0 then 1 / 10 ^ 10 else real g + real r) + 1) / 2"
proof -
  from assms(1) have "ndvi = map2d ndvi_pixel img"
    by (auto simp: calculate_ndvi_eq split: option.splits)
  with assms(2,3) have "ndvi ! i ! j = ndvi_pixel (img ! i ! j)"
    by (simp add: map2d_def)
  then show ?thesis by (simp add: assms(4) ndvi_pixel_def)
qed

text \<open>Witness for C2 as amended: the pixel with red 10 and green 30 has index \<open>3/4\<close>.\<close>

theorem calculate_ndvi_pixel_formula_witness:
  "calculate_ndvi [[(10, 30, 0), (0, 0, 0)]] = Inr ([[3 / 4, 1 / 2]], 5 / 8)
   \<and> ([[3 / 4, 1 / 2]] :: real list list) ! 0 ! 0 = ((30 - 10) / 40 + 1) / 2"
proof -
  have c: "calculate_ndvi [[(10, 30, 0), (0, 0, 0)]] = Inr ([[3 / 4, 1 / 2]], 5 / 8)"
    by (simp add: calculate_ndvi_eq map2d_def ndvi_pixel_def np_mean_def)
  from calculate_ndvi_pixel_formula [OF c, of 0 0 10 30 0] c show ?thesis by simp
qed

text \<open>
  C2 as stated fails. At the pixel with red 0 and green 1 the code returns the index 1,
  while the formula with \<open>\<epsilon> = 1e-8\<close> added to the denominator gives a value below 1.
\<close>

theorem calculate_ndvi_epsilon_counterexample:
  "calculate_ndvi [[(0, 1, 0)]] = Inr ([[1]], 1)
   \<and> (1::real) \<noteq> ((1 - 0) / (1 + 0 + 1 / 10 ^ 8) + 1) / 2"
  by (simp add: calculate_ndvi_eq map2d_def ndvi_pixel_def np_mean_def)

text \<open>
  C3. When red and green are equal at every pixel (the all-black image included), the
  index is exactly \<open>1/2\<close> at every pixel and so is its mean; the result is a value, neither
  an exception nor nan.
\<close>

theorem calculate_ndvi_equal_bands:
  assumes "shape2 h w img" "0 < h" "0 < w"
    and "\<forall>row \<in> set img. \<forall>(r, g, b) \<in> set row. r = g"
  shows "calculate_ndvi img = Inr (replicate h (replicate w (1 / 2)), 1 / 2)"
proof -
  have "\<forall>row \<in> set img. \<forall>p \<in> set row. ndvi_pixel p = 1 / 2"
  proof (intro ballI)
    fix row p
    assume row: "row \<in> set img" and p: "p \<in> set row"
    obtain r g b where rgb: "p = (r, g, b)" by (cases p)
    from assms(4) row p have "r = g" unfolding rgb by fastforce
    then show "ndvi_pixel p = 1 / 2" by (simp add: rgb ndvi_pixel_equal_bands)
  qed
  then have "map2d ndvi_pixel img = replicate h (replicate w (1 / 2))"
    using assms(1) by (intro map2d_const) simp_all
  then show ?thesis
    using assms(2,3) by (simp add: calculate_ndvi_eq np_mean_replicate)
qed

text \<open>Witness for C3: a two-by-two image with a black pixel.\<close>

theorem calculate_ndvi_equal_bands_witness:
  "calculate_ndvi [[(7, 7, 200), (0, 0, 0)], [(255, 255, 255), (0, 0, 9)]] =
     Inr ([[1 / 2, 1 / 2], [1 / 2, 1 / 2]], 1 / 2)"
proof -
  have s: "shape2 2 2 [[(7::nat, 7::nat, 200::nat), (0, 0, 0)], [(255, 255, 255), (0, 0, 9)]]"
    by (simp add: shape2_def)
  from calculate_ndvi_equal_bands [OF s] show ?thesis by (simp add: numeral_2_eq_2)
qed

text \<open>
  C4, as the code has it. \<open>calculate_image_area\<close> validates nothing. For positive
  inputs it returns the positive area of the formula; it raises \<open>ZeroDivisionError\<close> exactly
  when the focal length or the image width is zero; for every other input, non-positive
  ones included, it returns the value of the formula.
\<close>

theorem calculate_image_area_cases:
  "(0 < altitude \<and> 0 < focal_length \<and> 0 < sensor_width \<and> 0 < w \<and> 0 < h \<longrightarrow>
      calculate_image_area altitude focal_length sensor_width w h =
        Inr ((sensor_width * altitude) / (focal_length * of_int w) * of_int w
             * ((sensor_width * altitude) / (focal_length * of_int w) * of_int h))
      \<and> 0 < (sensor_width * altitude) / (focal_length * of_int w) * of_int w
             * ((sensor_width * altitude) / (focal_length * of_int w) * of_int h))
   \<and> (focal_length = 0 \<or> w = 0 \<longrightarrow>
        calculate_image_area altitude focal_length sensor_width w h = Inl ZeroDivisionError)
   \<and> (focal_length \<noteq> 0 \<and> w \<noteq> 0 \<longrightarrow>
        calculate_image_area altitude focal_length sensor_width w h =
        Inr ((sensor_width * altitude) / (focal_length * of_int w) * of_int w
             * ((sensor_width * altitude) / (focal_length * of_int w) * of_int h)))"
proof (intro conjI impI)
  assume "focal_length = 0 \<or> w = 0"
  then show "calculate_image_area altitude focal_length sensor_width w h = Inl ZeroDivisionError"
    by (auto simp: calculate_image_area_def)
next
  assume "focal_length \<noteq> 0 \<and> w \<noteq> 0"
  then show "calculate_image_area altitude focal_length sensor_width w h =
        Inr ((sensor_width * altitude) / (focal_length * of_int w) * of_int w
             * ((sensor_width * altitude) / (focal_length * of_int w) * of_int h))"
    by (simp add: calculate_image_area_def Let_def)
next
  assume pos: "0 < altitude \<and> 0 < focal_length \<and> 0 < sensor_width \<and> 0 < w \<and> 0 < h"
  then show "calculate_image_area altitude focal_length sensor_width w h =
        Inr ((sensor_width * altitude) / (focal_length * of_int w) * of_int w
             * ((sensor_width * altitude) / (focal_length * of_int w) * of_int h))"
    by (simp add: calculate_image_area_def Let_def)
  from pos show "0 < (sensor_width * altitude) / (focal_length * of_int w) * of_int w
             * ((sensor_width * altitude) / (focal_length * of_int w) * of_int h)"
    by simp
qed

text \<open>Witness for C4 as amended: the inputs of the specification, a zero focal length, a negative altitude.\<close>

theorem calculate_image_area_cases_witness:
  "calculate_image_area 100 35 (235 / 10) 1920 1080 = Inr (497025 / 196)
   \<and> calculate_image_area 100 0 (235 / 10) 1920 1080 = Inl ZeroDivisionError
   \<and> calculate_image_area (- 100) 35 (235 / 10) 1920 1080 = Inr (497025 / 196)"
  using calculate_image_area_cases [of 100 35 "235 / 10" 1920 1080]
    calculate_image_area_cases [of 100 0 "235 / 10" 1920 1080]
    calculate_image_area_cases [of "- 100" 35 "235 / 10" 1920 1080]
  by simp

text \<open>
  C4 as stated fails. With altitude 0 nothing is raised: the area 0 is returned.
\<close>

theorem calculate_image_area_zero_altitude:
  "calculate_image_area 0 35 (235 / 10) 1920 1080 = Inr 0"
  by (simp add: calculate_image_area_def Let_def)

text \<open>
  C7. For a non-negative ground area and positive configuration constants, the returned
  \<open>co2_sequestered_kg\<close> and \<open>co2_sequestered_tons\<close> do not decrease when the coverage grows
  within \<open>[0,1]\<close> with the density fixed, nor when the density grows within \<open>[0,1]\<close> with
  the coverage fixed.
\<close>

theorem co2_monotone:
  assumes area: "0 \<le> area"
    and pos: "0 < VEGETATION_DENSITY_MULTIPLIER cfg" "0 < CO2_PER_SQM cfg"
    and cov: "0 \<le> c1" "c1 \<le> c2" "c2 \<le> 1"
    and dens: "0 \<le> d1" "d1 \<le> d2" "d2 \<le> 1"
  shows "co2_sequestered_kg (estimate_co2_sequestration cfg
             (s\<lparr>vegetation_coverage := c1, vegetation_density := d1\<rparr>) area)
           \<le> co2_sequestered_kg (estimate_co2_sequestration cfg
             (s\<lparr>vegetation_coverage := c2, vegetation_density := d1\<rparr>) area)
       \<and> co2_sequestered_tons (estimate_co2_sequestration cfg
             (s\<lparr>vegetation_coverage := c1, vegetation_density := d1\<rparr>) area)
           \<le> co2_sequestered_tons (estimate_co2_sequestration cfg
             (s\<lparr>vegetation_coverage := c2, vegetation_density := d1\<rparr>) area)
       \<and> co2_sequestered_kg (estimate_co2_sequestration cfg
             (s\<lparr>vegetation_coverage := c1, vegetation_density := d1\<rparr>) area)
           \<le> co2_sequestered_kg (estimate_co2_sequestration cfg
             (s\<lparr>vegetation_coverage := c1, vegetation_density := d2\<rparr>) area)
       \<and> co2_sequestered_tons (estimate_co2_sequestration cfg
             (s\<lparr>vegetation_coverage := c1, vegetation_density := d1\<rparr>) area)
           \<le> co2_sequestered_tons (estimate_co2_sequestration cfg
             (s\<lparr>vegetation_coverage := c1, vegetation_density := d2\<rparr>) area)"
proof -
  let ?m = "VEGETATION_DENSITY_MULTIPLIER cfg" and ?k = "CO2_PER_SQM cfg"
  have c: "area * c1 * d1 * ?m * ?k \<le> area * c2 * d1 * ?m * ?k"
    using assms by (intro co2_raw_mono) simp_all
  have d: "area * c1 * d1 * ?m * ?k \<le> area * c1 * d2 * ?m * ?k"
    using assms by (intro co2_raw_mono) simp_all
  have c': "area * c1 * d1 * ?m * ?k / 1000 \<le> area * c2 * d1 * ?m * ?k / 1000"
    using c by (simp add: divide_right_mono)
  have d': "area * c1 * d1 * ?m * ?k / 1000 \<le> area * c1 * d2 * ?m * ?k / 1000"
    using d by (simp add: divide_right_mono)
  show ?thesis
    unfolding co2_kg_eq co2_tons_eq
    using py_round_mono [OF c] py_round_mono [OF d] py_round_mono [OF c'] py_round_mono [OF d']
    by simp
qed

text \<open>Witness for C7: the default configuration, 1000 square metres, coverage 1/4 against 1/2.\<close>

theorem co2_monotone_witness:
  "co2_sequestered_kg (estimate_co2_sequestration Config
       \<lparr> vegetation_coverage = 1 / 4, vegetation_density = 1 / 2, vegetation_pixels = 25,
         total_pixels = 100, num_vegetation_areas = 1 \<rparr> 1000) = 75
   \<and> co2_sequestered_kg (estimate_co2_sequestration Config
       \<lparr> vegetation_coverage = 1 / 2, vegetation_density = 1 / 2, vegetation_pixels = 25,
         total_pixels = 100, num_vegetation_areas = 1 \<rparr> 1000) = 150
   \<and> co2_sequestered_kg (estimate_co2_sequestration Config
       \<lparr> vegetation_coverage = 1 / 4, vegetation_density = 1 / 2, vegetation_pixels = 25,
         total_pixels = 100, num_vegetation_areas = 1 \<rparr> 1000)
     \<le> co2_sequestered_kg (estimate_co2_sequestration Config
       \<lparr> vegetation_coverage = 1 / 2, vegetation_density = 1 / 2, vegetation_pixels = 25,
         total_pixels = 100, num_vegetation_areas = 1 \<rparr> 1000)"
  using co2_monotone [of 1000 Config "1 / 4" "1 / 2" "1 / 2" "1 / 2"
      "\<lparr> vegetation_coverage = 0, vegetation_density = 0, vegetation_pixels = 25,
         total_pixels = 100, num_vegetation_areas = 1 \<rparr>"]
  by (simp add: Config_def estimate_co2_sequestration_def py_round_def round_half_even_def
      Let_def)

text \<open>
  C8, as the code has it. The coefficients are the constants \<open>a = 2.5\<close> and \<open>b = 2\<close> of the
  method; the returned \<open>biomass_per_sqm_kg\<close>, \<open>total_biomass_kg\<close> and \<open>total_biomass_tons\<close>
  are \<open>a * mean\<^sup>b\<close>, that times the area, and that divided by 1000, each rounded (to 2, 2
  and 4 decimal places).
\<close>

theorem estimate_biomass_rounded:
  assumes "np_mean ndvi = Some m"
  shows "\<exists>r. estimate_biomass ndvi area = Inr r
           \<and> biomass_per_sqm_kg r = py_round (5 / 2 * m ^ 2) 2
           \<and> total_biomass_kg r = py_round (5 / 2 * m ^ 2 * area) 2
           \<and> total_biomass_tons r = py_round (5 / 2 * m ^ 2 * area / 1000) 4"
  using assms by (simp add: estimate_biomass_def Let_def)

text \<open>Witness for C8 as amended: an index map of mean \<open>1/4\<close> over 1000 square metres.\<close>

theorem estimate_biomass_rounded_witness:
  "np_mean [[1 / 2, 1 / 4], [1 / 4, 0]] = Some (1 / 4)
   \<and> (\<exists>r. estimate_biomass [[1 / 2, 1 / 4], [1 / 4, 0]] 1000 = Inr r
           \<and> biomass_per_sqm_kg r = 4 / 25
           \<and> total_biomass_kg r = 625 / 4
           \<and> total_biomass_tons r = 1562 / 10000)"
proof -
  have m: "np_mean [[1 / 2, 1 / 4], [1 / 4, 0]] = Some (1 / 4)"
    by (simp add: np_mean_def)
  have r: "py_round (5 / 2 * (1 / 4) ^ 2) 2 = 4 / 25"
      "py_round (5 / 2 * (1 / 4) ^ 2 * 1000) 2 = 625 / 4"
      "py_round (5 / 2 * (1 / 4) ^ 2 * 1000 / 1000) 4 = 1562 / 10000"
    by (simp_all add: py_round_def round_half_even_def Let_def power2_eq_square)
  from estimate_biomass_rounded [OF m, of 1000] m show ?thesis
    unfolding r by blast
qed

text \<open>
  C8 as stated fails. For the mean index \<open>1/4\<close> the formula gives \<open>0.15625\<close> per square
  metre; the code returns \<open>0.16\<close>.
\<close>

theorem estimate_biomass_unrounded_counterexample:
  "estimate_biomass [[1 / 4]] 1 =
     Inr \<lparr> biomass_per_sqm_kg = 4 / 25, total_biomass_kg = 4 / 25,
           total_biomass_tons = 2 / 10000, ndvi_coefficient = 1 / 4,
           estimation_confidence = ''medium'' \<rparr>
   \<and> (4 / 25 :: real) \<noteq> 5 / 2 * (1 / 4) ^ 2"
  by (simp add: estimate_biomass_def np_mean_def py_round_def round_half_even_def Let_def
      power2_eq_square)

text \<open>
  C10. Every numeric field of the two estimates is the rounding of its formula to a fixed
  number of decimal places (CO2 in kg 2, in tons 4, coverage percent 2, density score 3,
  biomass per square metre and in kg 2, in tons 4), hence a whole multiple of that
  decimal unit.
\<close>

theorem estimates_rounded:
  assumes "np_mean ndvi = Some m"
  shows "(let r = estimate_co2_sequestration cfg stats area;
              kg = area * vegetation_coverage stats * vegetation_density stats
                   * VEGETATION_DENSITY_MULTIPLIER cfg * CO2_PER_SQM cfg
          in co2_sequestered_kg r = py_round kg 2
             \<and> co2_sequestered_tons r = py_round (kg / 1000) 4
             \<and> vegetation_coverage_percent r = py_round (vegetation_coverage stats * 100) 2
             \<and> vegetation_density_score r = py_round (vegetation_density stats) 3
             \<and> has_decimals 2 (co2_sequestered_kg r)
             \<and> has_decimals 4 (co2_sequestered_tons r)
             \<and> has_decimals 2 (vegetation_coverage_percent r)
             \<and> has_decimals 3 (vegetation_density_score r))
       \<and> (\<exists>b. estimate_biomass ndvi area = Inr b
             \<and> biomass_per_sqm_kg b = py_round (5 / 2 * m ^ 2) 2
             \<and> total_biomass_kg b = py_round (5 / 2 * m ^ 2 * area) 2
             \<and> total_biomass_tons b = py_round (5 / 2 * m ^ 2 * area / 1000) 4
             \<and> has_decimals 2 (biomass_per_sqm_kg b)
             \<and> has_decimals 2 (total_biomass_kg b)
             \<and> has_decimals 4 (total_biomass_tons b))"
proof -
  have co2: "co2_sequestered_kg (estimate_co2_sequestration cfg stats area) =
      py_round (area * vegetation_coverage stats * vegetation_density stats
                   * VEGETATION_DENSITY_MULTIPLIER cfg * CO2_PER_SQM cfg) 2"
    "co2_sequestered_tons (estimate_co2_sequestration cfg stats area) =
      py_round (area * vegetation_coverage stats * vegetation_density stats
                   * VEGETATION_DENSITY_MULTIPLIER cfg * CO2_PER_SQM cfg / 1000) 4"
    "vegetation_coverage_percent (estimate_co2_sequestration cfg stats area) =
      py_round (vegetation_coverage stats * 100) 2"
    "vegetation_density_score (estimate_co2_sequestration cfg stats area) =
      py_round (vegetation_density stats) 3"
    by (simp_all add: estimate_co2_sequestration_def Let_def)
  have bio: "\<exists>b. estimate_biomass ndvi area = Inr b
             \<and> biomass_per_sqm_kg b = py_round (5 / 2 * m ^ 2) 2
             \<and> total_biomass_kg b = py_round (5 / 2 * m ^ 2 * area) 2
             \<and> total_biomass_tons b = py_round (5 / 2 * m ^ 2 * area / 1000) 4"
    using assms by (simp add: estimate_biomass_def Let_def)
  then obtain b where b: "estimate_biomass ndvi area = Inr b"
    "biomass_per_sqm_kg b = py_round (5 / 2 * m ^ 2) 2"
    "total_biomass_kg b = py_round (5 / 2 * m ^ 2 * area) 2"
    "total_biomass_tons b = py_round (5 / 2 * m ^ 2 * area / 1000) 4"
    by blast
  show ?thesis
    unfolding Let_def co2
    using b by (simp add: has_decimals_py_round)
qed

text \<open>Witness for C10: the default configuration and an index map of mean \<open>1/4\<close>.\<close>

theorem estimates_rounded_witness:
  "np_mean [[1 / 4]] = Some (1 / 4)
   \<and> co2_sequestered_kg (estimate_co2_sequestration Config
       \<lparr> vegetation_coverage = 1 / 3, vegetation_density = 1 / 2, vegetation_pixels = 1,
         total_pixels = 3, num_vegetation_areas = 1 \<rparr> 1) = 1 / 10
   \<and> has_decimals 2 (co2_sequestered_kg (estimate_co2_sequestration Config
       \<lparr> vegetation_coverage = 1 / 3, vegetation_density = 1 / 2, vegetation_pixels = 1,
         total_pixels = 3, num_vegetation_areas = 1 \<rparr> 1))
   \<and> (\<exists>b. estimate_biomass [[1 / 4]] 1 = Inr b \<and> biomass_per_sqm_kg b = 4 / 25
          \<and> has_decimals 2 (biomass_per_sqm_kg b))"
proof -
  have m: "np_mean [[1 / 4]] = Some (1 / 4)"
    by (simp add: np_mean_def)
  from estimates_rounded [OF m, of Config
      "\<lparr> vegetation_coverage = 1 / 3, vegetation_density = 1 / 2, vegetation_pixels = 1,
         total_pixels = 3, num_vegetation_areas = 1 \<rparr>" 1] m
  show ?thesis
    unfolding Let_def
    by (auto simp: Config_def py_round_def round_half_even_def Let_def power2_eq_square)
qed

text \<open>
  C5. For an image and an index map of the same non-empty shape, with no value of the map
  above the threshold, \<open>detect_vegetation\<close> returns normally: the mask is empty, the
  coverage is 0 and the density is 0.
\<close>

theorem detect_vegetation_below_threshold:
  assumes "shape2 h w img" "shape2 h w ndvi" "0 < h" "0 < w"
    and "\<forall>row \<in> set ndvi. \<forall>v \<in> set row. v \<le> VEGETATION_INDEX_THRESHOLD cfg"
  shows "detect_vegetation cfg img ndvi =
           Inr (zeros h w,
                \<lparr> vegetation_coverage = 0, vegetation_density = 0, vegetation_pixels = 0,
                  total_pixels = h * w, num_vegetation_areas = 0 \<rparr>)"
proof -
  from np_mean_nonempty [OF assms(2,3,4)] have ne: "concat ndvi \<noteq> []"
    by (auto simp: np_mean_def Let_def split: if_splits)
  have cm: "clean_mask cfg ndvi = zeros h w"
    using assms by (intro clean_mask_below_threshold)
  have hw: "height img = h" "width img = w"
    using height_width_shape2 [OF assms(1,3)] .
  have tot: "h * w \<noteq> 0" using assms by simp
  show ?thesis
    unfolding detect_vegetation_def Let_def cm findContours_zeros hw
    using ne tot
    by (simp add: fillPoly_def zeros_like_zeros concat_zeros filter_zip_zero)
qed

text \<open>Witness for C5: a two-by-two image with one index value at the threshold.\<close>

theorem detect_vegetation_below_threshold_witness:
  "detect_vegetation Config [[(90, 10, 0), (70, 30, 0)], [(90, 10, 0), (90, 10, 0)]]
       [[1 / 10, 3 / 10], [1 / 10, 1 / 10]] =
     Inr ([[0, 0], [0, 0]],
          \<lparr> vegetation_coverage = 0, vegetation_density = 0, vegetation_pixels = 0,
            total_pixels = 4, num_vegetation_areas = 0 \<rparr>)"
proof -
  have a: "shape2 2 2 [[(90::nat, 10::nat, 0::nat), (70, 30, 0)], [(90, 10, 0), (90, 10, 0)]]"
    by (simp add: shape2_def)
  have b: "shape2 2 2 [[1 / 10, 3 / 10], [1 / 10, 1 / 10 :: real]]"
    by (simp add: shape2_def)
  have c: "\<forall>row \<in> set [[1 / 10, 3 / 10], [1 / 10, 1 / 10 :: real]].
             \<forall>v \<in> set row. v \<le> VEGETATION_INDEX_THRESHOLD Config"
    by (simp add: Config_def)
  from detect_vegetation_below_threshold [OF a b _ _ c] show ?thesis
    by (simp add: zeros_def numeral_2_eq_2)
qed




text \<open>
  C9, as the code has it. When the model file is missing or fails to load, \<open>load_model\<close>
  puts a default network in the place of the model and marks the detector loaded
  (returning \<open>True\<close> for a missing file and \<open>False\<close> for a failed load); when the default
  network cannot be built either, the exception leaves \<open>load_model\<close> and
  \<open>process_with_ai\<close>.
\<close>

theorem load_model_substitutes_default:
  assumes "path_exists rt \<longrightarrow> load_result rt = None"
  shows "(\<forall>m. default_result rt = Some m \<longrightarrow>
            load_model rt self =
              Inr (\<not> path_exists rt, self\<lparr>model := Some m, is_loaded := True\<rparr>))
       \<and> (default_result rt = None \<longrightarrow>
            load_model rt self = Inl ModelError
            \<and> process_with_ai rt cfg self img area = Inl ModelError)"
proof (intro conjI allI impI)
  fix m
  assume m: "default_result rt = Some m"
  show "load_model rt self =
          Inr (\<not> path_exists rt, self\<lparr>model := Some m, is_loaded := True\<rparr>)"
  proof (cases "path_exists rt")
    case True
    with assms have "load_result rt = None" by simp
    from load_model_failed_load [OF True this m] True show ?thesis by simp
  next
    case False
    from load_model_missing_file [OF False m] False show ?thesis by simp
  qed
next
  assume "default_result rt = None"
  with assms show l: "load_model rt self = Inl ModelError"
    by (intro load_model_no_default)
  then show "process_with_ai rt cfg self img area = Inl ModelError"
    by (rule process_with_ai_load_error)
qed

text \<open>Witness for C9 as amended: a model file that fails to load, with and without a default network.\<close>

theorem load_model_substitutes_default_witness:
  "load_result broken_file = None \<and> load_result no_default_model = None
   \<and> load_model broken_file fresh = Inr (False, substitute)
   \<and> load_model no_default_model fresh = Inl ModelError
   \<and> process_with_ai no_default_model Config fresh [[(0, 0, 0)]] None = Inl ModelError"
proof -
  have b: "path_exists broken_file \<longrightarrow> load_result broken_file = None"
    and n: "path_exists no_default_model \<longrightarrow> load_result no_default_model = None"
    by (simp_all add: broken_file_def no_default_model_def)
  from load_model_substitutes_default [OF b, of fresh Config "[[(0, 0, 0)]]" None]
    load_model_substitutes_default [OF n, of fresh Config "[[(0, 0, 0)]]" None]
  show ?thesis
    by (simp add: broken_file_def no_default_model_def fresh_def substitute_def)
qed

text \<open>
  C9 as stated fails. With a model file that fails to load, the detector comes out of
  \<open>load_model\<close> holding the default network as its model, and \<open>process_with_ai\<close> ends in
  an exception instead of a result with fields marked unavailable; when the default
  network cannot be built, it is the error of the model that leaves the pipeline.
\<close>

theorem process_with_ai_unavailable_counterexample:
  "load_model broken_file fresh = Inr (False, substitute)
   \<and> model substitute = default_result broken_file
   \<and> process_with_ai broken_file Config fresh [[(0, 0, 0)]] None = Inl AttributeError
   \<and> process_with_ai no_default_model Config fresh [[(0, 0, 0)]] None = Inl ModelError"
proof -
  have l: "load_model broken_file fresh = Inr (False, substitute)"
    by (simp add: load_model_def create_default_model_def broken_file_def fresh_def
        substitute_def Let_def)
  have n: "load_model no_default_model fresh = Inl ModelError"
    by (simp add: load_model_def create_default_model_def no_default_model_def Let_def)
  have "process_with_ai broken_file Config fresh [[(0, 0, 0)]] None = Inl AttributeError"
    by (simp add: process_with_ai_raises l)
  moreover have "process_with_ai no_default_model Config fresh [[(0, 0, 0)]] None
                   = Inl ModelError"
    by (simp add: process_with_ai_raises n)
  moreover have "model substitute = default_result broken_file"
    by (simp add: substitute_def broken_file_def)
  ultimately show ?thesis using l by blast
qed

end
